theory Spec2Isabelle
  imports Main "HOL-Library.AList"
begin

section \<open>Shared types\<close>

text \<open>
  Values that travel as JSON: session payloads, poll answers and the messages that are
  broadcast over WebSockets. A Python dict is an association list with distinct keys in
  insertion order.
\<close>

type_synonym ('k, 'v) dict = "('k \<times> 'v) list"

datatype json =
    JNull
  | JBool bool
  | JInt int
  | JStr string
  | JList "json list"
  | JObj "(string \<times> json) list"

text \<open>The exceptions the modelled code can raise, as values.\<close>

datatype error =
    HTTPException nat string
  | KeyError
  | TypeError
  | ValueError
  | AttributeError
  | ConnectionError

section \<open>The WebSocket connection manager\<close>

text \<open>
  \<^verbatim>\<open>ConnectionManager.active_connections\<close> is a dict from a session id to the list of
  its WebSockets. A WebSocket is identified by a number. The transport is the part of the
  world that \<^verbatim>\<open>send_text\<close> acts on: the sockets whose peer is gone raise on every
  send, and every call of \<^verbatim>\<open>send_text\<close> is logged with the socket, the message and
  whether it went through.
\<close>

type_synonym websocket = nat

type_synonym connections = "(string, websocket list) dict"

record transport =
  broken :: "websocket set"
  attempts :: "(websocket \<times> json \<times> bool) list"

definition connect :: "websocket \<Rightarrow> string \<Rightarrow> connections \<Rightarrow> connections" where
  "connect ws session_id active_connections =
     (let ac = (if map_of active_connections session_id = None
                then AList.update session_id [] active_connections
                else active_connections)
      in case map_of ac session_id of
           None \<Rightarrow> ac
         | Some conns \<Rightarrow> AList.update session_id (conns @ [ws]) ac)"

text \<open>
  \<^verbatim>\<open>list.remove\<close> takes out the first occurrence and raises \<^verbatim>\<open>ValueError\<close> when
  there is none; the entry of the session is deleted when its list is left empty.
\<close>

definition disconnect :: "websocket \<Rightarrow> string \<Rightarrow> connections \<Rightarrow> error + connections" where
  "disconnect ws session_id active_connections =
     (case map_of active_connections session_id of
        None \<Rightarrow> Inr active_connections
      | Some conns \<Rightarrow>
          if ws \<notin> set conns then Inl ValueError
          else (let conns' = remove1 ws conns
                in if conns' = [] then Inr (AList.delete session_id active_connections)
                   else Inr (AList.update session_id conns' active_connections)))"

definition send_text :: "websocket \<Rightarrow> json \<Rightarrow> transport \<Rightarrow> (error + unit) \<times> transport" where
  "send_text ws message tr =
     (if ws \<in> broken tr
      then (Inl ConnectionError, tr\<lparr>attempts := attempts tr @ [(ws, message, False)]\<rparr>)
      else (Inr (), tr\<lparr>attempts := attempts tr @ [(ws, message, True)]\<rparr>))"

text \<open>
  The loop of \<^verbatim>\<open>send_to_session\<close>: one \<^verbatim>\<open>send_text\<close> per listed socket, any
  exception swallowed by \<^verbatim>\<open>except: pass\<close>. The connection dict is passed through,
  so that what the loop does to it is part of the model.
\<close>

fun send_loop :: "json \<Rightarrow> websocket list \<Rightarrow> connections \<times> transport \<Rightarrow> connections \<times> transport" where
  "send_loop message [] (ac, tr) = (ac, tr)"
| "send_loop message (connection # rest) (ac, tr) =
     (case send_text connection message tr of
        (Inl e, tr') \<Rightarrow> send_loop message rest (ac, tr')
      | (Inr u, tr') \<Rightarrow> send_loop message rest (ac, tr'))"

definition send_to_session :: "json \<Rightarrow> string \<Rightarrow> connections \<times> transport \<Rightarrow> connections \<times> transport" where
  "send_to_session message session_id w =
     (case map_of (fst w) session_id of
        None \<Rightarrow> w
      | Some conns \<Rightarrow> send_loop message conns w)"

text \<open>No session id is mapped to an empty list.\<close>

definition no_empty_entry :: "connections \<Rightarrow> bool" where
  "no_empty_entry ac \<longleftrightarrow> (\<forall>sid. map_of ac sid \<noteq> Some [])"

section \<open>The session store\<close>

text \<open>
  A session is the dict that \<^verbatim>\<open>create_session\<close> builds, with its four keys as fields.
  Times are microseconds since the epoch, the resolution of \<^verbatim>\<open>datetime\<close>;
  \<^verbatim>\<open>isoformat\<close> followed by \<^verbatim>\<open>fromisoformat\<close>, and \<^verbatim>\<open>json.dumps\<close> followed by
  \<^verbatim>\<open>json.loads\<close>, give back the value they were given. The field \<open>stype\<close> is the key
  \<^verbatim>\<open>"type"\<close>.
\<close>

record session =
  stype :: string
  created_at :: int
  expires_at :: int
  data :: "(string, json) dict"

definition PHOTO_SHARE :: string where "PHOTO_SHARE = ''photo_share''"
definition CHAT_ROOM :: string where "CHAT_ROOM = ''chat_room''"
definition WHITEBOARD :: string where "WHITEBOARD = ''whiteboard''"
definition QUICK_POLL :: string where "QUICK_POLL = ''quick_poll''"

definition minutes :: "int \<Rightarrow> int" where
  "minutes n = n * 60000000"

definition SESSION_TTL_MINUTES :: int where "SESSION_TTL_MINUTES = 20"
definition SESSION_TTL :: int where "SESSION_TTL = minutes SESSION_TTL_MINUTES"

text \<open>The two local constants named \<^verbatim>\<open>grace_period\<close>: of \<^verbatim>\<open>get_session\<close> and of the cleanup task.\<close>

definition read_grace_period :: int where "read_grace_period = minutes 2"
definition reap_grace_period :: int where "reap_grace_period = minutes 5"

text \<open>
  The state the module keeps and acts on: the global \<^verbatim>\<open>redis_client\<close> (set or
  \<^verbatim>\<open>None\<close>), the global dict \<^verbatim>\<open>memory_storage\<close>, the keys of the Redis server (the
  key \<^verbatim>\<open>session:<id>\<close> is listed under its id, which for the ids the module issues is what
  the cleanup task gets back by stripping the prefix), whether the server answers, and the
  session ids that have a directory under \<^verbatim>\<open>TMP_DIR\<close>. A Redis command raises when the
  server does not answer; whether it answers changes between the operations of the
  module, not inside one. The server's own expiry of a key is a change of \<open>redis_db\<close> by
  the environment and is no part of an operation.
\<close>

record server =
  redis_client :: bool
  redis_up :: bool
  redis_db :: "(string, session) dict"
  memory_storage :: "(string, session) dict"
  session_dirs :: "string set"

definition get_redis :: "server \<Rightarrow> bool \<times> server" where
  "get_redis st =
     (if redis_client st then (True, st)
      else if redis_up st then (True, st\<lparr>redis_client := True\<rparr>)
      else (False, st))"

definition redis_get :: "string \<Rightarrow> server \<Rightarrow> error + session option" where
  "redis_get key st =
     (if redis_up st then Inr (map_of (redis_db st) key) else Inl ConnectionError)"

definition redis_setex :: "string \<Rightarrow> int \<Rightarrow> session \<Rightarrow> server \<Rightarrow> error + server" where
  "redis_setex key ttl v st =
     (if redis_up st then Inr (st\<lparr>redis_db := AList.update key v (redis_db st)\<rparr>)
      else Inl ConnectionError)"

definition redis_delete :: "string \<Rightarrow> server \<Rightarrow> error + server" where
  "redis_delete key st =
     (if redis_up st then Inr (st\<lparr>redis_db := AList.delete key (redis_db st)\<rparr>)
      else Inl ConnectionError)"

definition redis_keys :: "server \<Rightarrow> error + string list" where
  "redis_keys st = (if redis_up st then Inr (map fst (redis_db st)) else Inl ConnectionError)"

text \<open>
  \<^verbatim>\<open>create_session\<close> reads the clock twice, once for each timestamp: \<open>t1\<close> and \<open>t2\<close> are
  the two readings in that order, \<open>session_id\<close> is the fresh \<^verbatim>\<open>uuid4\<close>. The
  \<^verbatim>\<open>setex\<close> of this function is outside any \<^verbatim>\<open>try\<close>, so its exception is the result.
\<close>

definition create_session ::
  "string \<Rightarrow> (string, json) dict option \<Rightarrow> string \<Rightarrow> int \<Rightarrow> int \<Rightarrow> server \<Rightarrow> (error + string) \<times> server" where
  "create_session session_type dat session_id t1 t2 st =
     (let session_data = \<lparr>stype = session_type, created_at = t1, expires_at = t2 + SESSION_TTL,
                          data = (case dat of None \<Rightarrow> [] | Some d \<Rightarrow> if d = [] then [] else d)\<rparr>;
          (redis, st1) = get_redis st
      in if redis
         then (case redis_setex session_id SESSION_TTL session_data st1 of
                 Inl e \<Rightarrow> (Inl e, st1)
               | Inr st2 \<Rightarrow> (Inr session_id, st2))
         else (Inr session_id,
               st1\<lparr>memory_storage := AList.update session_id session_data (memory_storage st1)\<rparr>))"

text \<open>
  The first half of \<^verbatim>\<open>get_session\<close>: what the Redis block finds. An exception of the
  command is caught and counts as nothing found.
\<close>

definition redis_lookup :: "string \<Rightarrow> server \<Rightarrow> session option \<times> server" where
  "redis_lookup session_id st =
     (let (redis, st1) = get_redis st
      in if redis
         then (case redis_get session_id st1 of
                 Inr (Some session_data) \<Rightarrow> (Some session_data, st1)
               | Inr None \<Rightarrow> (None, st1)
               | Inl e \<Rightarrow> (None, st1))
         else (None, st1))"

definition get_session :: "string \<Rightarrow> int \<Rightarrow> server \<Rightarrow> session option \<times> server" where
  "get_session session_id now st =
     (case redis_lookup session_id st of
        (Some session_data, st1) \<Rightarrow>
          if now > expires_at session_data + read_grace_period then (None, st1)
          else (Some session_data, st1)
      | (None, st1) \<Rightarrow>
          (case map_of (memory_storage st1) session_id of
             Some session_data \<Rightarrow>
               if now > expires_at session_data + read_grace_period
               then (None, st1\<lparr>memory_storage := AList.delete session_id (memory_storage st1)\<rparr>)
               else (Some session_data, st1)
           | None \<Rightarrow> (None, st1)))"

text \<open>\<^verbatim>\<open>dict.update\<close>: the entries of the second dict are stored into the first, in order.\<close>

fun dict_update :: "('k, 'v) dict \<Rightarrow> ('k, 'v) dict \<Rightarrow> ('k, 'v) dict" where
  "dict_update d [] = d"
| "dict_update d ((k, v) # rest) = dict_update (AList.update k v d) rest"

definition update_session :: "string \<Rightarrow> (string, json) dict \<Rightarrow> int \<Rightarrow> server \<Rightarrow> server" where
  "update_session session_id dat now st =
     (case get_session session_id now st of
        (None, st1) \<Rightarrow> st1
      | (Some session_data, st1) \<Rightarrow>
          (let session_data' = session_data\<lparr>data := dict_update (data session_data) dat\<rparr>;
               (redis, st2) = get_redis st1;
               st3 = (if redis
                      then (case redis_setex session_id SESSION_TTL session_data' st2 of
                              Inl e \<Rightarrow> st2
                            | Inr st' \<Rightarrow> st')
                      else st2)
           in st3\<lparr>memory_storage := AList.update session_id session_data' (memory_storage st3)\<rparr>))"

definition delete_session :: "string \<Rightarrow> int \<Rightarrow> server \<Rightarrow> server" where
  "delete_session session_id now st =
     (let (redis, st1) = get_redis st;
          st2 = (if redis
                 then (case redis_delete session_id st1 of Inl e \<Rightarrow> st1 | Inr st' \<Rightarrow> st')
                 else st1);
          st3 = st2\<lparr>memory_storage := AList.delete session_id (memory_storage st2)\<rparr>
      in case get_session session_id now st3 of
           (None, st4) \<Rightarrow> st4
         | (Some session_data, st4) \<Rightarrow>
             if stype session_data = PHOTO_SHARE \<and> session_id \<in> session_dirs st4
             then st4\<lparr>session_dirs := session_dirs st4 - {session_id}\<rparr>
             else st4)"

text \<open>
  One pass of the body of the \<^verbatim>\<open>while True\<close> loop of \<^verbatim>\<open>cleanup_expired_sessions\<close>,
  up to its \<^verbatim>\<open>sleep\<close>. \<open>now\<close> is the clock reading the cutoff is computed from;
  \<open>clock sid\<close> is the later reading made inside the \<^verbatim>\<open>delete_session\<close> of \<open>sid\<close>. An
  exception inside the pass ends it and keeps what was done before.
\<close>

fun reap_keys :: "int \<Rightarrow> (string \<Rightarrow> int) \<Rightarrow> string list \<Rightarrow> server \<Rightarrow> error option \<times> server" where
  "reap_keys cutoff_time clock [] st = (None, st)"
| "reap_keys cutoff_time clock (key # keys) st =
     (case redis_get key st of
        Inl e \<Rightarrow> (Some e, st)
      | Inr None \<Rightarrow> reap_keys cutoff_time clock keys st
      | Inr (Some dat) \<Rightarrow>
          if expires_at dat < cutoff_time
          then reap_keys cutoff_time clock keys (delete_session key (clock key) st)
          else reap_keys cutoff_time clock keys st)"

fun delete_all :: "(string \<Rightarrow> int) \<Rightarrow> string list \<Rightarrow> server \<Rightarrow> server" where
  "delete_all clock [] st = st"
| "delete_all clock (session_id # rest) st =
     delete_all clock rest (delete_session session_id (clock session_id) st)"

definition cleanup_cycle :: "int \<Rightarrow> (string \<Rightarrow> int) \<Rightarrow> server \<Rightarrow> server" where
  "cleanup_cycle now clock st =
     (let cutoff_time = now - reap_grace_period;
          (redis, st1) = get_redis st
      in if redis
         then (case redis_keys st1 of
                 Inl e \<Rightarrow> st1
               | Inr keys \<Rightarrow> snd (reap_keys cutoff_time clock keys st1))
         else (let expired_sessions =
                     map fst (filter (\<lambda>(session_id, session_data). expires_at session_data < cutoff_time)
                                     (memory_storage st1))
               in delete_all clock expired_sessions st1))"

text \<open>
  What a reader finds under an id without touching the state: the Redis entry when the
  client is (or can be) connected and the server answers and holds the key, the entry of
  \<^verbatim>\<open>memory_storage\<close> otherwise. It is the specification side of \<^verbatim>\<open>get_session\<close>.
\<close>

definition stored :: "server \<Rightarrow> string \<Rightarrow> session option" where
  "stored st session_id =
     (case (if redis_up st then map_of (redis_db st) session_id else None) of
        Some r \<Rightarrow> Some r
      | None \<Rightarrow> map_of (memory_storage st) session_id)"

section \<open>The quick poll routes\<close>

text \<open>
  Reading a dict by key raises \<^verbatim>\<open>KeyError\<close> for a missing key. Truth value, \<^verbatim>\<open>len\<close>
  and \<^verbatim>\<open>>=\<close> are those of Python on the values JSON can hold.
\<close>

definition getitem :: "(string, json) dict \<Rightarrow> string \<Rightarrow> error + json" where
  "getitem d k = (case map_of d k of None \<Rightarrow> Inl KeyError | Some v \<Rightarrow> Inr v)"

fun truthy :: "json \<Rightarrow> bool" where
  "truthy JNull = False"
| "truthy (JBool b) = b"
| "truthy (JInt n) = (n \<noteq> 0)"
| "truthy (JStr s) = (s \<noteq> [])"
| "truthy (JList xs) = (xs \<noteq> [])"
| "truthy (JObj kvs) = (kvs \<noteq> [])"

fun py_len :: "json \<Rightarrow> error + nat" where
  "py_len (JStr s) = Inr (length s)"
| "py_len (JList xs) = Inr (length xs)"
| "py_len (JObj kvs) = Inr (length kvs)"
| "py_len JNull = Inl TypeError"
| "py_len (JBool b) = Inl TypeError"
| "py_len (JInt n) = Inl TypeError"

fun int_ge :: "int \<Rightarrow> json \<Rightarrow> error + bool" where
  "int_ge n (JInt m) = Inr (n \<ge> m)"
| "int_ge n (JBool b) = Inr (n \<ge> (if b then 1 else 0))"
| "int_ge n JNull = Inl TypeError"
| "int_ge n (JStr s) = Inl TypeError"
| "int_ge n (JList xs) = Inl TypeError"
| "int_ge n (JObj kvs) = Inl TypeError"

text \<open>What \<^verbatim>\<open>submit_poll_response\<close> returns on success.\<close>

record submit_result =
  response_count :: nat
  results_shown :: bool
  min_responses :: json

text \<open>
  The checks of \<^verbatim>\<open>submit_poll_response\<close> between the lookup of the session and the
  \<^verbatim>\<open>append\<close>, in the order of the source; the result is the list of responses stored
  so far. A stored value without \<^verbatim>\<open>append\<close> raises \<^verbatim>\<open>AttributeError\<close>.
\<close>

definition poll_checks :: "session \<Rightarrow> string list \<Rightarrow> error + json list" where
  "poll_checks session_data responses =
     (case getitem (data session_data) ''results_shown'' of
        Inl e \<Rightarrow> Inl e
      | Inr shown \<Rightarrow>
          if truthy shown then Inl (HTTPException 400 ''Poll results have already been shown'')
          else (case getitem (data session_data) ''questions'' of
                  Inl e \<Rightarrow> Inl e
                | Inr questions \<Rightarrow>
                    (case py_len questions of
                       Inl e \<Rightarrow> Inl e
                     | Inr n \<Rightarrow>
                         if length responses \<noteq> n
                         then Inl (HTTPException 400 ''Number of responses must match number of questions'')
                         else (case getitem (data session_data) ''responses'' of
                                 Inl e \<Rightarrow> Inl e
                               | Inr (JList poll_responses) \<Rightarrow> Inr poll_responses
                               | Inr other \<Rightarrow> Inl AttributeError))))"

text \<open>
  \<open>rid\<close> is the fresh \<^verbatim>\<open>uuid4\<close> of the response and \<open>ts\<close> the ISO string of the clock
  reading taken for it; \<open>t1\<close> is the clock reading of the \<^verbatim>\<open>get_session\<close> of the route
  and \<open>t2\<close> that of the \<^verbatim>\<open>get_session\<close> inside \<^verbatim>\<open>update_session\<close>. When the session
  came from \<^verbatim>\<open>memory_storage\<close>, the dict the route holds is the stored object itself, so
  the \<^verbatim>\<open>append\<close> changes the stored record at once; a record read from Redis is a copy.
\<close>

definition submit_poll_response ::
  "string \<Rightarrow> string list \<Rightarrow> string \<Rightarrow> string \<Rightarrow> int \<Rightarrow> int \<Rightarrow> server \<Rightarrow> (error + submit_result) \<times> server" where
  "submit_poll_response session_id responses rid ts t1 t2 st =
     (case get_session session_id t1 st of
        (None, st1) \<Rightarrow> (Inl (HTTPException 404 ''Session not found or expired''), st1)
      | (Some session_data, st1) \<Rightarrow>
          if stype session_data \<noteq> QUICK_POLL
          then (Inl (HTTPException 404 ''Session not found or expired''), st1)
          else (case poll_checks session_data responses of
                  Inl e \<Rightarrow> (Inl e, st1)
                | Inr old_responses \<Rightarrow>
                    (let poll_responses =
                           old_responses @ [JObj [(''id'', JStr rid),
                                                  (''responses'', JList (map JStr responses)),
                                                  (''timestamp'', JStr ts)]];
                         session_data' =
                           session_data\<lparr>data := AList.update ''responses'' (JList poll_responses)
                                                   (data session_data)\<rparr>;
                         st2 = (if fst (redis_lookup session_id st) = None
                                then st1\<lparr>memory_storage :=
                                           AList.update session_id session_data' (memory_storage st1)\<rparr>
                                else st1)
                     in case getitem (data session_data') ''min_responses'' of
                          Inl e \<Rightarrow> (Inl e, st2)
                        | Inr m \<Rightarrow>
                            (case int_ge (int (length poll_responses)) m of
                               Inl e \<Rightarrow> (Inl e, st2)
                             | Inr shown \<Rightarrow>
                                 (Inr \<lparr>response_count = length poll_responses, results_shown = shown,
                                       min_responses = m\<rparr>,
                                  update_session session_id
                                    [(''responses'', JList poll_responses), (''results_shown'', JBool shown)]
                                    t2 st2)))))"

definition get_poll_results :: "string \<Rightarrow> int \<Rightarrow> server \<Rightarrow> (error + json \<times> json) \<times> server" where
  "get_poll_results session_id now st =
     (case get_session session_id now st of
        (None, st1) \<Rightarrow> (Inl (HTTPException 404 ''Session not found or expired''), st1)
      | (Some session_data, st1) \<Rightarrow>
          if stype session_data \<noteq> QUICK_POLL
          then (Inl (HTTPException 404 ''Session not found or expired''), st1)
          else (case getitem (data session_data) ''results_shown'' of
                  Inl e \<Rightarrow> (Inl e, st1)
                | Inr shown \<Rightarrow>
                    if \<not> truthy shown then (Inl (HTTPException 400 ''Results not yet available''), st1)
                    else (case getitem (data session_data) ''questions'' of
                            Inl e \<Rightarrow> (Inl e, st1)
                          | Inr questions \<Rightarrow>
                              (case getitem (data session_data) ''responses'' of
                                 Inl e \<Rightarrow> (Inl e, st1)
                               | Inr rs \<Rightarrow> (Inr (questions, rs), st1)))))"

text \<open>
  The payload \<^verbatim>\<open>create_quick_poll\<close> gives a poll, and what the routes keep of its shape:
  a list of questions, an integer \<^verbatim>\<open>min_responses\<close>, a list of responses and a Boolean
  \<^verbatim>\<open>results_shown\<close>.
\<close>

definition create_quick_poll ::
  "string list \<Rightarrow> int \<Rightarrow> string \<Rightarrow> int \<Rightarrow> int \<Rightarrow> server \<Rightarrow> (error + string) \<times> server" where
  "create_quick_poll questions min_resp session_id t1 t2 st =
     (if length questions > 3 then (Inl (HTTPException 400 ''Maximum 3 questions allowed''), st)
      else if min_resp < 1 then (Inl (HTTPException 400 ''Minimum responses must be at least 1''), st)
      else create_session QUICK_POLL
             (Some [(''questions'', JList (map JStr questions)),
                    (''min_responses'', JInt min_resp),
                    (''responses'', JList []),
                    (''results_shown'', JBool False)])
             session_id t1 t2 st)"

definition poll_shape :: "session \<Rightarrow> json list \<Rightarrow> int \<Rightarrow> json list \<Rightarrow> bool \<Rightarrow> bool" where
  "poll_shape sd qs m rs shown \<longleftrightarrow>
     stype sd = QUICK_POLL
     \<and> map_of (data sd) ''questions'' = Some (JList qs)
     \<and> map_of (data sd) ''min_responses'' = Some (JInt m)
     \<and> map_of (data sd) ''responses'' = Some (JList rs)
     \<and> map_of (data sd) ''results_shown'' = Some (JBool shown)"

text \<open>
  A clock that shows the same time to every \<^verbatim>\<open>delete_session\<close> of a pass.
\<close>

definition at_time :: "int \<Rightarrow> string \<Rightarrow> int" where
  "at_time t session_id = t"

text \<open>
  The test of the cleanup task on the record a dict holds under a key: there is one, and
  its \<open>expires_at\<close> is before the cutoff.
\<close>

definition doomed :: "int \<Rightarrow> (string, session) dict \<Rightarrow> string \<Rightarrow> bool" where
  "doomed cutoff db k = (case map_of db k of None \<Rightarrow> False | Some r \<Rightarrow> expires_at r < cutoff)"

text \<open>The state of the module at start-up when the Redis server does not answer.\<close>

definition empty_server :: server where
  "empty_server = \<lparr>redis_client = False, redis_up = False, redis_db = [], memory_storage = [],
                    session_dirs = {}\<rparr>"

section \<open>Properties of the connection manager\<close>

lemma send_loop_eq:
  "send_loop message conns (ac, tr) =
     (ac, tr\<lparr>attempts := attempts tr @ map (\<lambda>c. (c, message, c \<notin> broken tr)) conns\<rparr>)"
  by (induction conns arbitrary: tr) (auto simp: send_text_def)

lemma connect_lookup:
  "map_of (connect ws sid ac) =
     (map_of ac)(sid \<mapsto> (case map_of ac sid of None \<Rightarrow> [] | Some cs \<Rightarrow> cs) @ [ws])"
  by (auto simp: connect_def Let_def update_conv' split: option.splits)

lemma connect_no_empty_entry: "no_empty_entry ac \<Longrightarrow> no_empty_entry (connect ws sid ac)"
  by (simp add: no_empty_entry_def connect_lookup)

lemma disconnect_no_empty_entry:
  "no_empty_entry ac \<Longrightarrow> disconnect ws sid ac = Inr ac' \<Longrightarrow> no_empty_entry ac'"
  by (auto simp: no_empty_entry_def disconnect_def Let_def update_conv' delete_conv' split: option.splits if_splits)

lemma send_to_session_fst: "fst (send_to_session message sid (ac, tr)) = ac"
  by (simp add: send_to_session_def send_loop_eq split: option.splits)

text \<open>
  Claim C9. The connection manager never keeps a session id with an empty connection list:
  from a dict without an empty entry, \<^verbatim>\<open>connect\<close>, a \<^verbatim>\<open>disconnect\<close> that returns
  and \<^verbatim>\<open>send_to_session\<close> all lead to a dict without an empty entry. A
  \<^verbatim>\<open>disconnect\<close> of a registered socket takes it out of the list of its session and
  deletes the entry of the session when the list is left empty. \<^verbatim>\<open>send_to_session\<close>
  for a session id without an entry changes nothing and sends nothing.
\<close>

theorem hub_keeps_no_empty_entry:
  assumes "no_empty_entry ac"
  shows "no_empty_entry (connect ws sid ac)
    \<and> (\<forall>ac'. disconnect ws sid ac = Inr ac' \<longrightarrow> no_empty_entry ac')
    \<and> (\<forall>conns. map_of ac sid = Some conns \<and> ws \<in> set conns \<longrightarrow>
          (\<exists>ac'. disconnect ws sid ac = Inr ac'
             \<and> map_of ac' = (map_of ac)(sid := (if remove1 ws conns = [] then None else Some (remove1 ws conns)))))
    \<and> no_empty_entry (fst (send_to_session m sid (ac, tr)))
    \<and> (map_of ac sid = None \<longrightarrow> send_to_session m sid (ac, tr) = (ac, tr))"
proof -
  have a: "no_empty_entry (connect ws sid ac)"
    using assms by (rule connect_no_empty_entry)
  have b: "\<forall>ac'. disconnect ws sid ac = Inr ac' \<longrightarrow> no_empty_entry ac'"
    using assms disconnect_no_empty_entry by blast
  have c: "\<forall>conns. map_of ac sid = Some conns \<and> ws \<in> set conns \<longrightarrow>
          (\<exists>ac'. disconnect ws sid ac = Inr ac'
             \<and> map_of ac' = (map_of ac)(sid := (if remove1 ws conns = [] then None else Some (remove1 ws conns))))"
    by (auto simp: disconnect_def Let_def update_conv' delete_conv')
  have d: "no_empty_entry (fst (send_to_session m sid (ac, tr)))"
    using assms by (simp add: send_to_session_fst)
  have e: "map_of ac sid = None \<longrightarrow> send_to_session m sid (ac, tr) = (ac, tr)"
    by (simp add: send_to_session_def)
  from a b c d e show ?thesis by blast
qed

theorem hub_keeps_no_empty_entry_witness:
  "no_empty_entry [(''s'', [1::nat])]
   \<and> no_empty_entry (connect 2 ''s'' [(''s'', [1])])
   \<and> disconnect 1 ''s'' [(''s'', [1])] = Inr []
   \<and> no_empty_entry []
   \<and> send_to_session (JStr ''hi'') ''t'' ([(''s'', [1])], \<lparr>broken = {}, attempts = []\<rparr>)
       = ([(''s'', [1])], \<lparr>broken = {}, attempts = []\<rparr>)"
proof -
  have h: "no_empty_entry [(''s'', [1])]"
    by (simp add: no_empty_entry_def)
  show ?thesis
    using h hub_keeps_no_empty_entry [OF h, of 2 "''s''" "JStr ''hi''" "\<lparr>broken = {}, attempts = []\<rparr>"]
          hub_keeps_no_empty_entry [OF h, of 1 "''s''"]
          hub_keeps_no_empty_entry [OF h, of 1 "''t''" "JStr ''hi''" "\<lparr>broken = {}, attempts = []\<rparr>"]
    by (simp add: disconnect_def no_empty_entry_def)
qed

text \<open>
  Claim C3, as stated, fails: a socket whose send raises is not taken out of the list.
  With sockets 1 and 2 registered and socket 1 broken, the broadcast tries both, and
  socket 1 is still registered afterwards.
\<close>

theorem broadcast_failure_keeps_connection:
  "fst (send_to_session (JStr ''hi'') ''s'' ([(''s'', [1, 2])], \<lparr>broken = {1}, attempts = []\<rparr>))
     = [(''s'', [1, 2])]
   \<and> attempts (snd (send_to_session (JStr ''hi'') ''s'' ([(''s'', [1, 2])], \<lparr>broken = {1}, attempts = []\<rparr>)))
     = [(1, JStr ''hi'', False), (2, JStr ''hi'', True)]"
  by (simp add: send_to_session_def send_text_def)

text \<open>
  Claim C3, amended. For a session id with registered sockets, \<^verbatim>\<open>send_to_session\<close>
  calls \<^verbatim>\<open>send_text\<close> with the message once for each entry of the list, in list
  order; a send that raises is swallowed and the loop goes on to the remaining sockets;
  the connection dict is left as it was, so a socket whose send failed stays registered.
\<close>

theorem broadcast_attempts_each_once:
  assumes "map_of ac sid = Some conns"
  shows "send_to_session m sid (ac, tr) =
           (ac, tr\<lparr>attempts := attempts tr @ map (\<lambda>c. (c, m, c \<notin> broken tr)) conns\<rparr>)"
  using assms by (simp add: send_to_session_def send_loop_eq)

theorem broadcast_attempts_each_once_witness:
  "map_of [(''s'', [1, 2, 3::nat])] ''s'' = Some [1, 2, 3]
   \<and> send_to_session (JStr ''hi'') ''s'' ([(''s'', [1, 2, 3])], \<lparr>broken = {2}, attempts = []\<rparr>)
     = ([(''s'', [1, 2, 3])],
        \<lparr>broken = {2}, attempts = [(1, JStr ''hi'', True), (2, JStr ''hi'', False), (3, JStr ''hi'', True)]\<rparr>)"
proof -
  have h: "map_of [(''s'', [1, 2, 3::nat])] ''s'' = Some [1, 2, 3]" by simp
  show ?thesis
    using h broadcast_attempts_each_once [OF h, of "JStr ''hi''" "\<lparr>broken = {2}, attempts = []\<rparr>"]
    by simp
qed

section \<open>Properties of the session store\<close>

text \<open>
  Closed forms of the operations: what \<^verbatim>\<open>get_redis\<close>, the Redis block of
  \<^verbatim>\<open>get_session\<close>, \<^verbatim>\<open>get_session\<close> itself and \<^verbatim>\<open>delete_session\<close> return and
  leave behind, for every state.
\<close>

lemma get_redis_eq:
  "get_redis st = (redis_client st \<or> redis_up st, st\<lparr>redis_client := redis_client st \<or> redis_up st\<rparr>)"
  by (cases "redis_client st") (auto simp: get_redis_def)

lemma redis_lookup_eq:
  "redis_lookup sid st =
     (if redis_up st then map_of (redis_db st) sid else None,
      st\<lparr>redis_client := redis_client st \<or> redis_up st\<rparr>)"
  by (auto simp: redis_lookup_def get_redis_eq redis_get_def split: option.splits)

lemma get_session_result:
  "fst (get_session sid now st) =
     (case stored st sid of
        None \<Rightarrow> None
      | Some r \<Rightarrow> if now \<le> expires_at r + read_grace_period then Some r else None)"
  by (auto simp: get_session_def redis_lookup_eq stored_def split: option.splits)

lemma get_session_state:
  "snd (get_session sid now st) =
     st\<lparr>redis_client := redis_client st \<or> redis_up st,
        memory_storage :=
          (case (if redis_up st then map_of (redis_db st) sid else None) of
             Some r \<Rightarrow> memory_storage st
           | None \<Rightarrow>
               (case map_of (memory_storage st) sid of
                  Some r \<Rightarrow> if now > expires_at r + read_grace_period
                            then AList.delete sid (memory_storage st) else memory_storage st
                | None \<Rightarrow> memory_storage st))\<rparr>"
  by (auto simp: get_session_def redis_lookup_eq split: option.splits)

lemma delete_session_eq:
  "delete_session sid now st =
     st\<lparr>redis_client := redis_client st \<or> redis_up st,
        redis_db := (if redis_up st then AList.delete sid (redis_db st) else redis_db st),
        memory_storage := AList.delete sid (memory_storage st)\<rparr>"
  by (auto simp: delete_session_def get_redis_eq redis_delete_def get_session_def redis_lookup_eq
        delete_conv' split: option.splits)

lemma dict_update_lookup:
  "distinct (map fst e) \<Longrightarrow> map_of (dict_update d e) = map_of d ++ map_of e"
proof (induction e arbitrary: d)
  case Nil
  then show ?case by simp
next
  case (Cons p rest)
  obtain k v where p: "p = (k, v)" by (cases p)
  from Cons.prems p have k: "k \<notin> dom (map_of rest)" and dr: "distinct (map fst rest)"
    by (auto simp: dom_map_of_conv_image_fst)
  have "map_of (dict_update d (p # rest)) = map_of (AList.update k v d) ++ map_of rest"
    using Cons.IH [OF dr] p by simp
  also have "\<dots> = (map_of d)(k \<mapsto> v) ++ map_of rest"
    by (simp only: update_conv')
  also have "\<dots> = (map_of d ++ map_of rest)(k \<mapsto> v)"
    using k by (rule map_add_upd_left)
  also have "\<dots> = map_of d ++ map_of (p # rest)"
    unfolding p by (simp only: map_of.simps fst_conv snd_conv map_add_upd)
  finally show ?case .
qed



lemma update_session_present:
  assumes "fst (get_session sid now st) = Some r"
  shows "update_session sid dat now st =
     st\<lparr>redis_client := redis_client st \<or> redis_up st,
        redis_db := (if redis_up st then AList.update sid (r\<lparr>data := dict_update (data r) dat\<rparr>) (redis_db st)
                     else redis_db st),
        memory_storage := AList.update sid (r\<lparr>data := dict_update (data r) dat\<rparr>) (memory_storage st)\<rparr>"
proof -
  have s: "snd (get_session sid now st) = st\<lparr>redis_client := redis_client st \<or> redis_up st\<rparr>"
    using assms
    by (auto simp: get_session_def redis_lookup_eq split: option.splits if_splits)
  then have "get_session sid now st = (Some r, st\<lparr>redis_client := redis_client st \<or> redis_up st\<rparr>)"
    using assms by (cases "get_session sid now st") simp
  then show ?thesis
    by (auto simp: update_session_def Let_def get_redis_eq redis_setex_def)
qed

lemma create_then_get:
  assumes "create_session ty dat sid t1 t2 st = (Inr sid', st')"
    and "now \<le> t2 + SESSION_TTL + read_grace_period"
  shows "fst (get_session sid' now st') =
           Some \<lparr>stype = ty, created_at = t1, expires_at = t2 + SESSION_TTL,
                 data = (case dat of None \<Rightarrow> [] | Some d \<Rightarrow> d)\<rparr>"
proof -
  let ?r = "\<lparr>stype = ty, created_at = t1, expires_at = t2 + SESSION_TTL,
             data = (case dat of None \<Rightarrow> [] | Some d \<Rightarrow> d)\<rparr>"
  have "stored st' sid' = Some ?r"
    using assms(1)
    by (cases "redis_up st"; cases "redis_client st"; cases dat)
       (auto simp: create_session_def get_redis_eq redis_setex_def stored_def update_conv' Let_def)
  then show ?thesis using assms(2) by (simp add: get_session_result)
qed

lemmas store_defs =
  get_redis_def redis_get_def redis_setex_def redis_delete_def redis_keys_def
  redis_lookup_def get_session_def update_session_def delete_session_def create_session_def
  Let_def SESSION_TTL_def SESSION_TTL_MINUTES_def minutes_def read_grace_period_def
  reap_grace_period_def empty_server_def PHOTO_SHARE_def CHAT_ROOM_def WHITEBOARD_def QUICK_POLL_def

text \<open>
  Claim C2. For every state, id and time, \<^verbatim>\<open>get_session\<close> returns the record stored
  under the id if and only if the time is at most the record's \<open>expires_at\<close> plus the
  read grace period of two minutes; it returns \<^verbatim>\<open>None\<close>, and raises nothing, when the
  time is later or no record is stored under the id.
\<close>

theorem get_session_grace_period:
  "fst (get_session sid now st) =
     (case stored st sid of
        None \<Rightarrow> None
      | Some r \<Rightarrow> if now \<le> expires_at r + read_grace_period then Some r else None)
   \<and> read_grace_period = 2 * 60 * 1000000"
  by (simp add: get_session_result read_grace_period_def minutes_def)

text \<open>
  Claim C1, evaluated on the code. Deleting a photo session that has a directory removes
  the record and leaves the directory, with the in-memory backend and with Redis alike:
  \<^verbatim>\<open>delete_session\<close> looks the session up after it has removed it, finds nothing, and
  never reaches \<^verbatim>\<open>rmtree\<close>. The closed form \<open>delete_session_eq\<close> shows the same for
  every state: \<open>session_dirs\<close> is not among the fields it changes.
\<close>

theorem delete_session_leaves_directory:
  "delete_session ''s'' 0
     \<lparr>redis_client = False, redis_up = False, redis_db = [],
      memory_storage = [(''s'', \<lparr>stype = PHOTO_SHARE, created_at = 0, expires_at = SESSION_TTL,
                                   data = [(''files'', JList [JStr ''img_1_ab.jpg''])]\<rparr>)],
      session_dirs = {''s''}\<rparr>
   = \<lparr>redis_client = False, redis_up = False, redis_db = [], memory_storage = [],
      session_dirs = {''s''}\<rparr>
   \<and> delete_session ''s'' 0
     \<lparr>redis_client = True, redis_up = True,
      redis_db = [(''s'', \<lparr>stype = PHOTO_SHARE, created_at = 0, expires_at = SESSION_TTL,
                             data = [(''files'', JList [JStr ''img_1_ab.jpg''])]\<rparr>)],
      memory_storage = [],
      session_dirs = {''s''}\<rparr>
   = \<lparr>redis_client = True, redis_up = True, redis_db = [], memory_storage = [],
      session_dirs = {''s''}\<rparr>"
  by (simp add: store_defs)

text \<open>
  Claim C8, evaluated on the code. \<^verbatim>\<open>create_session\<close> reads the clock once for
  \<open>created_at\<close> and once more for \<open>expires_at\<close>. When the clock moves by one
  microsecond between the two readings, the record that an immediate \<^verbatim>\<open>get_session\<close>
  returns has the given type and payload, and its \<open>expires_at\<close> minus \<open>created_at\<close> is
  the TTL plus one microsecond.
\<close>

theorem create_session_reads_clock_twice:
  "fst (create_session CHAT_ROOM (Some [(''name'', JStr ''Team'')]) ''s'' 0 1 empty_server) = Inr ''s''
   \<and> fst (get_session ''s'' 1
         (snd (create_session CHAT_ROOM (Some [(''name'', JStr ''Team'')]) ''s'' 0 1 empty_server)))
     = Some \<lparr>stype = CHAT_ROOM, created_at = 0, expires_at = SESSION_TTL + 1,
             data = [(''name'', JStr ''Team'')]\<rparr>
   \<and> (SESSION_TTL + 1) - 0 \<noteq> SESSION_TTL"
  by (simp add: store_defs)

text \<open>
  Claim C4. When \<^verbatim>\<open>get_session\<close> finds a record under the id at the time of the
  update, a \<^verbatim>\<open>get_session\<close> after \<^verbatim>\<open>update_session\<close>, at any time within the
  grace period of the record, returns a record whose payload is the old payload overridden
  field by field with the partial payload, and whose type, \<open>created_at\<close> and
  \<open>expires_at\<close> are those of the old record; this record, with the same
  \<open>expires_at\<close>, is what both backends now hold.
\<close>

theorem update_then_get_merged:
  assumes "fst (get_session sid now st) = Some r"
    and "distinct (map fst dat)"
    and "now' \<le> expires_at r + read_grace_period"
  shows "\<exists>r'. fst (get_session sid now' (update_session sid dat now st)) = Some r'
           \<and> map_of (data r') = map_of (data r) ++ map_of dat
           \<and> stype r' = stype r \<and> created_at r' = created_at r \<and> expires_at r' = expires_at r
           \<and> map_of (memory_storage (update_session sid dat now st)) sid = Some r'
           \<and> (redis_up st \<longrightarrow> map_of (redis_db (update_session sid dat now st)) sid = Some r')"
proof -
  let ?r' = "r\<lparr>data := dict_update (data r) dat\<rparr>"
  let ?st' = "update_session sid dat now st"
  have st': "?st' = st\<lparr>redis_client := redis_client st \<or> redis_up st,
        redis_db := (if redis_up st then AList.update sid ?r' (redis_db st) else redis_db st),
        memory_storage := AList.update sid ?r' (memory_storage st)\<rparr>"
    using assms(1) by (rule update_session_present)
  have "stored ?st' sid = Some ?r'"
    by (simp add: st' stored_def update_conv')
  then have g: "fst (get_session sid now' ?st') = Some ?r'"
    using assms(3) by (simp add: get_session_result)
  have d: "map_of (data ?r') = map_of (data r) ++ map_of dat"
    using assms(2) by (simp add: dict_update_lookup)
  have m: "map_of (memory_storage ?st') sid = Some ?r'"
    by (simp add: st' update_conv')
  have rd: "redis_up st \<longrightarrow> map_of (redis_db ?st') sid = Some ?r'"
    by (simp add: st' update_conv')
  from g d m rd show ?thesis by (intro exI [of _ ?r']) simp
qed

theorem update_then_get_merged_witness:
  "fst (get_session ''s'' 5
         (snd (create_session CHAT_ROOM (Some [(''name'', JStr ''Team''), (''messages'', JList [])]) ''s'' 0 0 empty_server)))
     = Some \<lparr>stype = CHAT_ROOM, created_at = 0, expires_at = SESSION_TTL,
             data = [(''name'', JStr ''Team''), (''messages'', JList [])]\<rparr>
   \<and> distinct (map fst [(''messages'', JList [JStr ''hi''])])
   \<and> 9 \<le> expires_at \<lparr>stype = CHAT_ROOM, created_at = 0, expires_at = SESSION_TTL,
             data = [(''name'', JStr ''Team''), (''messages'', JList [])]\<rparr> + read_grace_period
   \<and> fst (get_session ''s'' 9 (update_session ''s'' [(''messages'', JList [JStr ''hi''])] 5
         (snd (create_session CHAT_ROOM (Some [(''name'', JStr ''Team''), (''messages'', JList [])]) ''s'' 0 0 empty_server))))
     = Some \<lparr>stype = CHAT_ROOM, created_at = 0, expires_at = SESSION_TTL,
             data = [(''name'', JStr ''Team''), (''messages'', JList [JStr ''hi''])]\<rparr>"
proof -
  let ?st = "snd (create_session CHAT_ROOM (Some [(''name'', JStr ''Team''), (''messages'', JList [])]) ''s'' 0 0 empty_server)"
  let ?r = "\<lparr>stype = CHAT_ROOM, created_at = 0, expires_at = SESSION_TTL,
             data = [(''name'', JStr ''Team''), (''messages'', JList [])]\<rparr>"
  have h1: "fst (get_session ''s'' 5 ?st) = Some ?r"
    by (simp add: store_defs)
  have h2: "distinct (map fst [(''messages'', JList [JStr ''hi''])])"
    by simp
  have h3: "9 \<le> expires_at ?r + read_grace_period"
    by (simp add: store_defs)
  have "fst (get_session ''s'' 9 (update_session ''s'' [(''messages'', JList [JStr ''hi''])] 5 ?st))
     = Some \<lparr>stype = CHAT_ROOM, created_at = 0, expires_at = SESSION_TTL,
             data = [(''name'', JStr ''Team''), (''messages'', JList [JStr ''hi''])]\<rparr>"
    using update_then_get_merged [OF h1 h2 h3]
    by (simp add: store_defs)
  with h1 h2 h3 show ?thesis by blast
qed






text \<open>
  Claim C7, as stated, fails: \<^verbatim>\<open>get_session\<close> deletes the in-memory entry it finds
  expired. An entry that expired at minute 20 and is read at minute 23 is reported absent
  and is gone from \<^verbatim>\<open>memory_storage\<close> afterwards.
\<close>

theorem get_session_evicts_expired_entry:
  "get_session ''s'' (minutes 23)
     \<lparr>redis_client = False, redis_up = False, redis_db = [],
      memory_storage = [(''s'', \<lparr>stype = CHAT_ROOM, created_at = 0, expires_at = minutes 20, data = []\<rparr>)],
      session_dirs = {}\<rparr>
   = (None, \<lparr>redis_client = False, redis_up = False, redis_db = [], memory_storage = [],
             session_dirs = {}\<rparr>)"
  by (simp add: store_defs)

text \<open>
  Claim C7, amended. \<^verbatim>\<open>get_session\<close> reports an entry past its expiry plus the read
  grace period as absent; when it has reached the in-memory entry of the id (Redis gave
  nothing) and that entry is past its expiry plus the grace period, it also deletes the
  entry from \<^verbatim>\<open>memory_storage\<close>; in every other case it leaves \<^verbatim>\<open>memory_storage\<close>
  as it was. It never changes the Redis keys.
\<close>

theorem get_session_memory_effect:
  "memory_storage (snd (get_session sid now st)) =
     (case (if redis_up st then map_of (redis_db st) sid else None) of
        Some r \<Rightarrow> memory_storage st
      | None \<Rightarrow>
          (case map_of (memory_storage st) sid of
             Some r \<Rightarrow> if now > expires_at r + read_grace_period
                       then AList.delete sid (memory_storage st) else memory_storage st
           | None \<Rightarrow> memory_storage st))
   \<and> redis_db (snd (get_session sid now st)) = redis_db st
   \<and> fst (get_session sid now st) =
       (case stored st sid of
          None \<Rightarrow> None
        | Some r \<Rightarrow> if now > expires_at r + read_grace_period then None else Some r)"
  by (simp add: get_session_state get_session_result split: option.splits)

section \<open>Properties of the cleanup task\<close>

text \<open>
  Closed forms of the two loops and of a whole pass, in each of the three situations: the
  server answers; it does not and no client was ever connected; it does not and a client
  is connected.
\<close>

lemma doomed_delete: "doomed c (AList.delete key db) k = (k \<noteq> key \<and> doomed c db k)"
  by (simp add: doomed_def delete_conv')

lemma delete_filter: "AList.delete k xs = filter (\<lambda>p. fst p \<noteq> k) xs"
  by (induction xs) auto

lemma reap_keys_up:
  assumes "redis_up st" and "redis_client st"
  shows "reap_keys c clk keys st =
           (None, st\<lparr>redis_db := filter (\<lambda>p. \<not> (fst p \<in> set keys \<and> doomed c (redis_db st) (fst p))) (redis_db st),
                     memory_storage := filter (\<lambda>p. \<not> (fst p \<in> set keys \<and> doomed c (redis_db st) (fst p))) (memory_storage st)\<rparr>)"
  using assms
proof (induction keys arbitrary: st)
  case Nil
  then show ?case by simp
next
  case (Cons key keys)
  show ?case
  proof (cases "doomed c (redis_db st) key")
    case False
    then have step: "reap_keys c clk (key # keys) st = reap_keys c clk keys st"
      using Cons.prems by (auto simp: redis_get_def doomed_def split: option.splits)
    have fe: "filter (\<lambda>p. \<not> (fst p \<in> set (key # keys) \<and> doomed c (redis_db st) (fst p))) xs
        = filter (\<lambda>p. \<not> (fst p \<in> set keys \<and> doomed c (redis_db st) (fst p))) xs"
      for xs :: "(string, session) dict"
      using False by (intro filter_cong) auto
    show ?thesis unfolding step fe by (rule Cons.IH [OF Cons.prems])
  next
    case True
    let ?st' = "delete_session key (clk key) st"
    have st': "?st' = st\<lparr>redis_db := AList.delete key (redis_db st),
                          memory_storage := AList.delete key (memory_storage st)\<rparr>"
      using Cons.prems by (simp add: delete_session_eq)
    have up: "redis_up ?st'" "redis_client ?st'"
      using Cons.prems by (simp_all add: st')
    have fld: "redis_db ?st' = AList.delete key (redis_db st)"
      "memory_storage ?st' = AList.delete key (memory_storage st)"
      by (simp_all add: st')
    have upd2: "?st'\<lparr>redis_db := A, memory_storage := B\<rparr> = st\<lparr>redis_db := A, memory_storage := B\<rparr>"
      for A B by (simp add: st')
    have fe: "filter (\<lambda>p. \<not> (fst p \<in> set keys \<and> doomed c (AList.delete key (redis_db st)) (fst p)))
                (AList.delete key xs)
        = filter (\<lambda>p. \<not> (fst p \<in> set (key # keys) \<and> doomed c (redis_db st) (fst p))) xs"
      for xs :: "(string, session) dict"
      unfolding delete_filter [of key xs] filter_filter
      using True by (intro filter_cong) (auto simp: doomed_delete)
    have "reap_keys c clk (key # keys) st = reap_keys c clk keys ?st'"
      using True Cons.prems by (auto simp: redis_get_def doomed_def split: option.splits)
    also have "\<dots> = (None, ?st'\<lparr>redis_db := filter (\<lambda>p. \<not> (fst p \<in> set keys \<and> doomed c (redis_db ?st') (fst p))) (redis_db ?st'),
                     memory_storage := filter (\<lambda>p. \<not> (fst p \<in> set keys \<and> doomed c (redis_db ?st') (fst p))) (memory_storage ?st')\<rparr>)"
      by (rule Cons.IH [OF up])
    also have "\<dots> = (None, st\<lparr>redis_db := filter (\<lambda>p. \<not> (fst p \<in> set (key # keys) \<and> doomed c (redis_db st) (fst p))) (redis_db st),
                     memory_storage := filter (\<lambda>p. \<not> (fst p \<in> set (key # keys) \<and> doomed c (redis_db st) (fst p))) (memory_storage st)\<rparr>)"
      unfolding fld upd2 fe ..
    finally show ?thesis .
  qed
qed

lemma delete_all_down:
  assumes "\<not> redis_up st"
  shows "delete_all clk ks st = st\<lparr>memory_storage := filter (\<lambda>p. fst p \<notin> set ks) (memory_storage st)\<rparr>"
  using assms
proof (induction ks arbitrary: st)
  case Nil
  then show ?case by simp
next
  case (Cons k ks)
  let ?st' = "delete_session k (clk k) st"
  have st': "?st' = st\<lparr>memory_storage := AList.delete k (memory_storage st)\<rparr>"
    using Cons.prems by (simp add: delete_session_eq)
  then have down: "\<not> redis_up ?st'" using Cons.prems by simp
  have fld: "memory_storage ?st' = AList.delete k (memory_storage st)"
    by (simp add: st')
  have upd1: "?st'\<lparr>memory_storage := B\<rparr> = st\<lparr>memory_storage := B\<rparr>" for B
    by (simp add: st')
  have fe: "filter (\<lambda>p. fst p \<notin> set ks) (AList.delete k xs) = filter (\<lambda>p. fst p \<notin> set (k # ks)) xs"
    for xs :: "(string, session) dict"
    unfolding delete_filter [of k xs] filter_filter
    by (intro filter_cong) auto
  have "delete_all clk (k # ks) st = delete_all clk ks ?st'" by simp
  also have "\<dots> = ?st'\<lparr>memory_storage := filter (\<lambda>p. fst p \<notin> set ks) (memory_storage ?st')\<rparr>"
    by (rule Cons.IH [OF down])
  also have "\<dots> = st\<lparr>memory_storage := filter (\<lambda>p. fst p \<notin> set (k # ks)) (memory_storage st)\<rparr>"
    unfolding fld upd1 fe ..
  finally show ?case .
qed

lemma cleanup_cycle_up:
  assumes "redis_up st"
  shows "cleanup_cycle now clk st =
     st\<lparr>redis_client := True,
        redis_db := filter (\<lambda>p. \<not> doomed (now - reap_grace_period) (redis_db st) (fst p)) (redis_db st),
        memory_storage := filter (\<lambda>p. \<not> doomed (now - reap_grace_period) (redis_db st) (fst p)) (memory_storage st)\<rparr>"
proof -
  let ?st1 = "st\<lparr>redis_client := True\<rparr>"
  have up: "redis_up ?st1" "redis_client ?st1" using assms by simp_all
  have fld: "redis_db ?st1 = redis_db st" "memory_storage ?st1 = memory_storage st"
    by simp_all
  have fe: "filter (\<lambda>p. \<not> (fst p \<in> set (map fst (redis_db st)) \<and> doomed c (redis_db st) (fst p))) xs
      = filter (\<lambda>p. \<not> doomed c (redis_db st) (fst p)) xs" for xs :: "(string, session) dict" and c
    by (intro filter_cong) (auto simp: doomed_def split: option.splits dest!: map_of_SomeD intro: rev_image_eqI)
  have c: "cleanup_cycle now clk st =
      snd (reap_keys (now - reap_grace_period) clk (map fst (redis_db st)) ?st1)"
    using assms by (simp add: cleanup_cycle_def get_redis_eq redis_keys_def Let_def)
  show ?thesis
    unfolding c reap_keys_up [OF up] snd_conv fld fe ..
qed

lemma get_redis_down: "\<not> redis_up st \<Longrightarrow> \<not> redis_client st \<Longrightarrow> get_redis st = (False, st)"
  by (simp add: get_redis_def)

lemma cleanup_cycle_down:
  assumes "\<not> redis_up st" and "\<not> redis_client st" and "distinct (map fst (memory_storage st))"
  shows "cleanup_cycle now clk st =
     st\<lparr>memory_storage := filter (\<lambda>p. \<not> doomed (now - reap_grace_period) (memory_storage st) (fst p)) (memory_storage st)\<rparr>"
proof -
  have fe: "filter (\<lambda>p. fst p \<notin> set (map fst (filter (\<lambda>(session_id, session_data). expires_at session_data < c) (memory_storage st)))) (memory_storage st)
      = filter (\<lambda>p. \<not> doomed c (memory_storage st) (fst p)) (memory_storage st)" for c
    using assms(3)
    by (intro filter_cong) (auto simp: doomed_def image_iff split: option.splits dest: eq_key_imp_eq_value)
  have c: "cleanup_cycle now clk st =
      delete_all clk (map fst (filter (\<lambda>(session_id, session_data). expires_at session_data < now - reap_grace_period) (memory_storage st))) st"
    using assms(1,2) by (simp add: cleanup_cycle_def get_redis_down Let_def)
  show ?thesis
    unfolding c delete_all_down [OF assms(1)] fe ..
qed

lemma cleanup_cycle_outage:
  assumes "\<not> redis_up st" and "redis_client st"
  shows "cleanup_cycle now clk st = st"
  using assms by (simp add: cleanup_cycle_def get_redis_eq redis_keys_def)

lemma map_of_filter_not_doomed:
  "map_of (filter (\<lambda>p. \<not> doomed c db (fst p)) xs) k = (if doomed c db k then None else map_of xs k)"
  by (induction xs) auto

lemma grace_less: "read_grace_period < reap_grace_period"
  by (simp add: read_grace_period_def reap_grace_period_def minutes_def)

lemma cleanup_cycle_up_lookup:
  assumes "redis_up st"
  shows "map_of (redis_db (cleanup_cycle now clk st)) k =
           (if doomed (now - reap_grace_period) (redis_db st) k then None else map_of (redis_db st) k)"
    and "map_of (memory_storage (cleanup_cycle now clk st)) k =
           (if doomed (now - reap_grace_period) (redis_db st) k then None else map_of (memory_storage st) k)"
    and "redis_up (cleanup_cycle now clk st)"
  using assms by (simp_all add: cleanup_cycle_up map_of_filter_not_doomed)

lemma cleanup_cycle_down_lookup:
  assumes "\<not> redis_up st" and "\<not> redis_client st" and "distinct (map fst (memory_storage st))"
  shows "redis_db (cleanup_cycle now clk st) = redis_db st"
    and "map_of (memory_storage (cleanup_cycle now clk st)) k =
           (if doomed (now - reap_grace_period) (memory_storage st) k then None else map_of (memory_storage st) k)"
    and "\<not> redis_up (cleanup_cycle now clk st)"
  using assms by (simp_all add: cleanup_cycle_down map_of_filter_not_doomed)

text \<open>
  Claim C6, as stated, fails: a pass looks at one backend only. A session created while
  Redis was away lives in \<^verbatim>\<open>memory_storage\<close>; once Redis answers again, a pass lists the
  Redis keys and never looks at \<^verbatim>\<open>memory_storage\<close>, so the record is still there forty
  minutes after its expiry.
\<close>

theorem cleanup_cycle_skips_memory_when_redis_answers:
  "map_of (memory_storage
      (cleanup_cycle (minutes 60) (at_time (minutes 60))
         ((snd (create_session CHAT_ROOM None ''s'' 0 0 empty_server))\<lparr>redis_up := True\<rparr>))) ''s''
     = Some \<lparr>stype = CHAT_ROOM, created_at = 0, expires_at = SESSION_TTL, data = []\<rparr>
   \<and> minutes 60 > SESSION_TTL + reap_grace_period"
  by (simp add: store_defs cleanup_cycle_def)

text \<open>
  Claim C6, amended. The cutoff is five minutes. When the Redis server answers, a pass
  deletes a session id, from Redis and from \<^verbatim>\<open>memory_storage\<close>, if and only if Redis
  holds a record under it with \<open>now > expires_at + 5 min\<close>; every other Redis record and
  every in-memory entry of another id is left as it was, also the expired in-memory entries
  that Redis does not hold. When the server does not answer and no client is connected,
  the pass deletes exactly the in-memory entries with \<open>now > expires_at + 5 min\<close> and
  leaves the others as they were. When a client is connected and the server does not
  answer, the pass changes nothing. In each case a \<^verbatim>\<open>get_session\<close> after the pass
  returns nothing for an id whose record was past the cutoff.
\<close>

theorem cleanup_cycle_scans_one_backend:
  assumes "distinct (map fst (memory_storage st))"
  shows "(redis_up st \<longrightarrow>
            map_of (redis_db (cleanup_cycle now clock st)) sid =
              (case map_of (redis_db st) sid of
                 None \<Rightarrow> None
               | Some r \<Rightarrow> if now > expires_at r + reap_grace_period then None else Some r)
          \<and> map_of (memory_storage (cleanup_cycle now clock st)) sid =
              (case map_of (redis_db st) sid of
                 None \<Rightarrow> map_of (memory_storage st) sid
               | Some r \<Rightarrow> if now > expires_at r + reap_grace_period then None
                           else map_of (memory_storage st) sid))
       \<and> (\<not> redis_up st \<and> \<not> redis_client st \<longrightarrow>
            redis_db (cleanup_cycle now clock st) = redis_db st
          \<and> map_of (memory_storage (cleanup_cycle now clock st)) sid =
              (case map_of (memory_storage st) sid of
                 None \<Rightarrow> None
               | Some r \<Rightarrow> if now > expires_at r + reap_grace_period then None else Some r))
       \<and> (\<not> redis_up st \<and> redis_client st \<longrightarrow> cleanup_cycle now clock st = st)
       \<and> ((\<exists>r. stored st sid = Some r \<and> now > expires_at r + reap_grace_period) \<and> now \<le> t \<longrightarrow>
            fst (get_session sid t (cleanup_cycle now clock st)) = None)
       \<and> reap_grace_period = 5 * 60 * 1000000"
proof -
  let ?st' = "cleanup_cycle now clock st"
  have a: "map_of (redis_db ?st') sid =
              (case map_of (redis_db st) sid of
                 None \<Rightarrow> None
               | Some r \<Rightarrow> if now > expires_at r + reap_grace_period then None else Some r)"
       "map_of (memory_storage ?st') sid =
              (case map_of (redis_db st) sid of
                 None \<Rightarrow> map_of (memory_storage st) sid
               | Some r \<Rightarrow> if now > expires_at r + reap_grace_period then None
                           else map_of (memory_storage st) sid)"
       "redis_up ?st'"
    if "redis_up st"
    by (auto simp: cleanup_cycle_up_lookup [OF that] doomed_def split: option.splits)
  have b: "redis_db ?st' = redis_db st"
      "map_of (memory_storage ?st') sid =
              (case map_of (memory_storage st) sid of
                 None \<Rightarrow> None
               | Some r \<Rightarrow> if now > expires_at r + reap_grace_period then None else Some r)"
      "\<not> redis_up ?st'"
    if "\<not> redis_up st" "\<not> redis_client st"
    by (auto simp: cleanup_cycle_down_lookup [OF that assms] doomed_def split: option.splits)
  have c: "?st' = st" if "\<not> redis_up st" "redis_client st"
    using that by (rule cleanup_cycle_outage)
  have d: "fst (get_session sid t ?st') = None"
    if "stored st sid = Some r" "now > expires_at r + reap_grace_period" "now \<le> t" for r
  proof -
    have late: "\<not> t \<le> expires_at r + read_grace_period"
      using that(2,3) grace_less by linarith
    consider "redis_up st" | "\<not> redis_up st" "\<not> redis_client st" | "\<not> redis_up st" "redis_client st"
      by blast
    then have "stored ?st' sid = None \<or> stored ?st' sid = Some r"
    proof cases
      case 1
      then show ?thesis
        using that(1,2) a [OF 1]
        by (auto simp: stored_def split: option.splits if_splits)
    next
      case 2
      then show ?thesis
        using that(1,2) b [OF 2]
        by (auto simp: stored_def split: option.splits if_splits)
    next
      case 3
      then show ?thesis using that(1) c by simp
    qed
    then show ?thesis
      using late by (auto simp: get_session_result)
  qed
  have e: "reap_grace_period = 5 * 60 * 1000000"
    by (simp add: reap_grace_period_def minutes_def)
  from a b c d e show ?thesis by blast
qed

theorem cleanup_cycle_scans_one_backend_witness:
  "distinct (map fst [(''old'', \<lparr>stype = CHAT_ROOM, created_at = 0, expires_at = minutes 20, data = []\<rparr>)])
   \<and> cleanup_cycle (minutes 26) (at_time (minutes 26))
       \<lparr>redis_client = True, redis_up = True,
        redis_db = [(''old'', \<lparr>stype = CHAT_ROOM, created_at = 0, expires_at = minutes 20, data = []\<rparr>),
                    (''new'', \<lparr>stype = CHAT_ROOM, created_at = minutes 2, expires_at = minutes 22, data = []\<rparr>)],
        memory_storage = [(''old'', \<lparr>stype = CHAT_ROOM, created_at = 0, expires_at = minutes 20, data = []\<rparr>)],
        session_dirs = {}\<rparr>
     = \<lparr>redis_client = True, redis_up = True,
        redis_db = [(''new'', \<lparr>stype = CHAT_ROOM, created_at = minutes 2, expires_at = minutes 22, data = []\<rparr>)],
        memory_storage = [],
        session_dirs = {}\<rparr>
   \<and> fst (get_session ''old'' (minutes 26)
        (cleanup_cycle (minutes 26) (at_time (minutes 26))
       \<lparr>redis_client = True, redis_up = True,
        redis_db = [(''old'', \<lparr>stype = CHAT_ROOM, created_at = 0, expires_at = minutes 20, data = []\<rparr>),
                    (''new'', \<lparr>stype = CHAT_ROOM, created_at = minutes 2, expires_at = minutes 22, data = []\<rparr>)],
        memory_storage = [(''old'', \<lparr>stype = CHAT_ROOM, created_at = 0, expires_at = minutes 20, data = []\<rparr>)],
        session_dirs = {}\<rparr>)) = None
   \<and> cleanup_cycle (minutes 26) (at_time (minutes 26))
       \<lparr>redis_client = False, redis_up = False, redis_db = [],
        memory_storage = [(''old'', \<lparr>stype = CHAT_ROOM, created_at = 0, expires_at = minutes 20, data = []\<rparr>),
                          (''new'', \<lparr>stype = CHAT_ROOM, created_at = minutes 2, expires_at = minutes 22, data = []\<rparr>)],
        session_dirs = {}\<rparr>
     = \<lparr>redis_client = False, redis_up = False, redis_db = [],
        memory_storage = [(''new'', \<lparr>stype = CHAT_ROOM, created_at = minutes 2, expires_at = minutes 22, data = []\<rparr>)],
        session_dirs = {}\<rparr>
   \<and> cleanup_cycle (minutes 26) (at_time (minutes 26))
       \<lparr>redis_client = True, redis_up = False, redis_db = [],
        memory_storage = [(''old'', \<lparr>stype = CHAT_ROOM, created_at = 0, expires_at = minutes 20, data = []\<rparr>)],
        session_dirs = {}\<rparr>
     = \<lparr>redis_client = True, redis_up = False, redis_db = [],
        memory_storage = [(''old'', \<lparr>stype = CHAT_ROOM, created_at = 0, expires_at = minutes 20, data = []\<rparr>)],
        session_dirs = {}\<rparr>"
proof -
  let ?old = "\<lparr>stype = CHAT_ROOM, created_at = 0, expires_at = minutes 20, data = []\<rparr>"
  let ?new = "\<lparr>stype = CHAT_ROOM, created_at = minutes 2, expires_at = minutes 22, data = []\<rparr>"
  let ?st = "\<lparr>redis_client = True, redis_up = True, redis_db = [(''old'', ?old), (''new'', ?new)],
              memory_storage = [(''old'', ?old)], session_dirs = {}\<rparr>"
  have h: "distinct (map fst (memory_storage ?st))" by simp
  have ev: "cleanup_cycle (minutes 26) (at_time (minutes 26)) ?st
     = \<lparr>redis_client = True, redis_up = True, redis_db = [(''new'', ?new)],
        memory_storage = [], session_dirs = {}\<rparr>"
    by (simp add: store_defs cleanup_cycle_def at_time_def)
  have s: "stored ?st ''old'' = Some ?old \<and> minutes 26 > expires_at ?old + reap_grace_period"
    by (simp add: stored_def store_defs)
  have "fst (get_session ''old'' (minutes 26) (cleanup_cycle (minutes 26) (at_time (minutes 26)) ?st)) = None"
    using cleanup_cycle_scans_one_backend [OF h, of "minutes 26" "at_time (minutes 26)" "''old''" "minutes 26"] s
    by blast
  moreover have "cleanup_cycle (minutes 26) (at_time (minutes 26))
       \<lparr>redis_client = False, redis_up = False, redis_db = [],
        memory_storage = [(''old'', ?old), (''new'', ?new)], session_dirs = {}\<rparr>
     = \<lparr>redis_client = False, redis_up = False, redis_db = [],
        memory_storage = [(''new'', ?new)], session_dirs = {}\<rparr>"
    by (simp add: store_defs cleanup_cycle_def at_time_def)
  moreover have "cleanup_cycle (minutes 26) (at_time (minutes 26))
       \<lparr>redis_client = True, redis_up = False, redis_db = [],
        memory_storage = [(''old'', ?old)], session_dirs = {}\<rparr>
     = \<lparr>redis_client = True, redis_up = False, redis_db = [],
        memory_storage = [(''old'', ?old)], session_dirs = {}\<rparr>"
    by (simp add: store_defs cleanup_cycle_def at_time_def)
  ultimately show ?thesis using ev by simp
qed

section \<open>Properties of the quick poll routes\<close>

text \<open>
  What the routes do on a session that \<^verbatim>\<open>get_session\<close> finds and that has the shape of
  a poll: the outcome of the checks, the rejected and the accepted submission, and the
  record a later read finds.
\<close>

lemma get_session_present:
  assumes "fst (get_session sid now st) = Some r"
  shows "get_session sid now st = (Some r, st\<lparr>redis_client := redis_client st \<or> redis_up st\<rparr>)"
proof -
  have "snd (get_session sid now st) = st\<lparr>redis_client := redis_client st \<or> redis_up st\<rparr>"
    using assms
    by (auto simp: get_session_def redis_lookup_eq split: option.splits if_splits)
  then show ?thesis
    using assms by (cases "get_session sid now st") simp
qed

lemma update_session_then_get:
  assumes "fst (get_session sid now st) = Some r"
    and "now' \<le> expires_at r + read_grace_period"
  shows "fst (get_session sid now' (update_session sid dat now st)) =
           Some (r\<lparr>data := dict_update (data r) dat\<rparr>)"
proof -
  have "stored (update_session sid dat now st) sid = Some (r\<lparr>data := dict_update (data r) dat\<rparr>)"
    by (simp add: update_session_present [OF assms(1)] stored_def update_conv')
  then show ?thesis
    using assms(2) by (simp add: get_session_result)
qed

lemma poll_checks_shape:
  assumes "poll_shape sd qs m rs shown"
  shows "poll_checks sd responses =
     (if shown then Inl (HTTPException 400 ''Poll results have already been shown'')
      else if length responses \<noteq> length qs
      then Inl (HTTPException 400 ''Number of responses must match number of questions'')
      else Inr rs)"
  using assms by (simp add: poll_shape_def poll_checks_def getitem_def)

lemma submit_rejected:
  assumes "fst (get_session sid t1 st) = Some sd" and "poll_shape sd qs m rs shown"
    and "shown \<or> length responses \<noteq> length qs"
  shows "submit_poll_response sid responses rid ts t1 t2 st =
     (Inl (HTTPException 400
            (if shown then ''Poll results have already been shown''
             else ''Number of responses must match number of questions'')),
      st\<lparr>redis_client := redis_client st \<or> redis_up st\<rparr>)"
proof -
  have q: "stype sd = QUICK_POLL" using assms(2) by (simp add: poll_shape_def)
  show ?thesis
    using assms(3) q
    by (auto simp: submit_poll_response_def get_session_present [OF assms(1)]
          poll_checks_shape [OF assms(2)])
qed

lemma submit_accepted:
  assumes g: "fst (get_session sid t1 st) = Some sd" and sh: "poll_shape sd qs m rs False"
    and len: "length responses = length qs"
    and entry: "entry = JObj [(''id'', JStr rid), (''responses'', JList (map JStr responses)), (''timestamp'', JStr ts)]"
    and sd': "sd' = sd\<lparr>data := AList.update ''responses'' (JList (rs @ [entry])) (data sd)\<rparr>"
    and st1: "st1 = st\<lparr>redis_client := redis_client st \<or> redis_up st\<rparr>"
    and st2: "st2 = (if fst (redis_lookup sid st) = None
                   then st1\<lparr>memory_storage := AList.update sid sd' (memory_storage st1)\<rparr> else st1)"
  shows "submit_poll_response sid responses rid ts t1 t2 st =
     (Inr \<lparr>response_count = length rs + 1, results_shown = (m \<le> int (length rs) + 1), min_responses = JInt m\<rparr>,
      update_session sid [(''responses'', JList (rs @ [entry])),
                          (''results_shown'', JBool (m \<le> int (length rs) + 1))] t2 st2)"
proof -
  have q: "stype sd = QUICK_POLL" using sh by (simp add: poll_shape_def)
  have mr: "getitem (AList.update ''responses'' X (data sd)) ''min_responses'' = Inr (JInt m)" for X
    using sh by (simp add: poll_shape_def getitem_def update_conv')
  show ?thesis
    using q len
    by (simp add: submit_poll_response_def get_session_present [OF g] poll_checks_shape [OF sh]
          Let_def entry sd' st1 st2 mr add.commute)
qed

lemma submit_accepted_stored:
  assumes g: "fst (get_session sid t1 st) = Some sd" and sh: "poll_shape sd qs m rs False"
    and sd': "sd' = sd\<lparr>data := AList.update ''responses'' (JList rs') (data sd)\<rparr>"
    and st1: "st1 = st\<lparr>redis_client := redis_client st \<or> redis_up st\<rparr>"
    and st2: "st2 = (if fst (redis_lookup sid st) = None
                   then st1\<lparr>memory_storage := AList.update sid sd' (memory_storage st1)\<rparr> else st1)"
    and t2: "t2 \<le> expires_at sd + read_grace_period"
  shows "\<exists>r. fst (get_session sid t2 st2) = Some r \<and> (r = sd \<or> r = sd')"
proof -
  have s: "stored st sid = Some sd"
    using g by (auto simp: get_session_result split: option.splits if_splits)
  have "stored st2 sid = Some sd \<or> stored st2 sid = Some sd'"
    using s by (auto simp: st2 st1 stored_def redis_lookup_eq update_conv' split: option.splits if_splits)
  moreover have "expires_at sd' = expires_at sd" by (simp add: sd')
  ultimately show ?thesis
    using t2 by (auto simp: get_session_result)
qed

text \<open>
  Claim C10. For a quick poll session that \<^verbatim>\<open>get_session\<close> finds: a submission is
  rejected with status 400 when \<^verbatim>\<open>results_shown\<close> is already true, and when the number
  of submitted responses differs from the number of questions, and in both cases the
  records in Redis and in \<^verbatim>\<open>memory_storage\<close> are as before; an accepted submission
  returns the new response count and \<^verbatim>\<open>results_shown\<close>, which is true if and only if
  the new count is at least \<^verbatim>\<open>min_responses\<close>, and the record read back within the
  grace period holds the appended response and that same flag, with its timestamps
  unchanged; the results route answers with status 400 while \<^verbatim>\<open>results_shown\<close> is false
  and with the questions and responses once it is true.
\<close>

theorem poll_submit_and_results:
  assumes "fst (get_session sid t1 st) = Some sd" and "poll_shape sd qs m rs shown"
  shows "(shown \<longrightarrow>
            submit_poll_response sid responses rid ts t1 t2 st =
              (Inl (HTTPException 400 ''Poll results have already been shown''),
               st\<lparr>redis_client := redis_client st \<or> redis_up st\<rparr>))
       \<and> (\<not> shown \<and> length responses \<noteq> length qs \<longrightarrow>
            submit_poll_response sid responses rid ts t1 t2 st =
              (Inl (HTTPException 400 ''Number of responses must match number of questions''),
               st\<lparr>redis_client := redis_client st \<or> redis_up st\<rparr>))
       \<and> (\<not> shown \<and> length responses = length qs \<longrightarrow>
            fst (submit_poll_response sid responses rid ts t1 t2 st) =
              Inr \<lparr>response_count = length rs + 1, results_shown = (m \<le> int (length rs) + 1),
                   min_responses = JInt m\<rparr>
          \<and> (t2 \<le> expires_at sd + read_grace_period \<longrightarrow>
               (\<exists>sd'. fst (get_session sid t2 (snd (submit_poll_response sid responses rid ts t1 t2 st)))
                        = Some sd'
                  \<and> poll_shape sd' qs m
                       (rs @ [JObj [(''id'', JStr rid), (''responses'', JList (map JStr responses)),
                                    (''timestamp'', JStr ts)]])
                       (m \<le> int (length rs) + 1)
                  \<and> created_at sd' = created_at sd \<and> expires_at sd' = expires_at sd)))
       \<and> (\<not> shown \<longrightarrow>
            fst (get_poll_results sid t1 st) = Inl (HTTPException 400 ''Results not yet available''))
       \<and> (shown \<longrightarrow> fst (get_poll_results sid t1 st) = Inr (JList qs, JList rs))"
proof -
  let ?entry = "JObj [(''id'', JStr rid), (''responses'', JList (map JStr responses)), (''timestamp'', JStr ts)]"
  let ?b = "m \<le> int (length rs) + 1"
  let ?upd = "[(''responses'', JList (rs @ [?entry])), (''results_shown'', JBool ?b)]"
  let ?sd' = "sd\<lparr>data := AList.update ''responses'' (JList (rs @ [?entry])) (data sd)\<rparr>"
  let ?st1 = "st\<lparr>redis_client := redis_client st \<or> redis_up st\<rparr>"
  let ?st2 = "(if fst (redis_lookup sid st) = None
               then ?st1\<lparr>memory_storage := AList.update sid ?sd' (memory_storage ?st1)\<rparr> else ?st1)"
  let ?sub = "submit_poll_response sid responses rid ts t1 t2 st"
  have q: "stype sd = QUICK_POLL" using assms(2) by (simp add: poll_shape_def)
  have a: "?sub = (Inl (HTTPException 400 ''Poll results have already been shown''), ?st1)" if shown
    using submit_rejected [OF assms, of responses rid ts t2] that by simp
  have b: "?sub = (Inl (HTTPException 400 ''Number of responses must match number of questions''), ?st1)"
    if "\<not> shown" "length responses \<noteq> length qs"
    using submit_rejected [OF assms, of responses rid ts t2] that by simp
  have c: "fst ?sub = Inr \<lparr>response_count = length rs + 1, results_shown = ?b, min_responses = JInt m\<rparr>
      \<and> (t2 \<le> expires_at sd + read_grace_period \<longrightarrow>
               (\<exists>sd'. fst (get_session sid t2 (snd ?sub)) = Some sd'
                  \<and> poll_shape sd' qs m (rs @ [?entry]) ?b
                  \<and> created_at sd' = created_at sd \<and> expires_at sd' = expires_at sd))"
    if ns: "\<not> shown" and len: "length responses = length qs"
  proof -
    have sh: "poll_shape sd qs m rs False" using assms(2) ns by simp
    have sub: "?sub = (Inr \<lparr>response_count = length rs + 1, results_shown = ?b, min_responses = JInt m\<rparr>,
        update_session sid ?upd t2 ?st2)"
      by (rule submit_accepted [OF assms(1) sh len refl refl refl refl])
    have fin: "\<exists>sd'. fst (get_session sid t2 (snd ?sub)) = Some sd'
                  \<and> poll_shape sd' qs m (rs @ [?entry]) ?b
                  \<and> created_at sd' = created_at sd \<and> expires_at sd' = expires_at sd"
      if t2: "t2 \<le> expires_at sd + read_grace_period"
    proof -
      obtain r where r: "fst (get_session sid t2 ?st2) = Some r" and rr: "r = sd \<or> r = ?sd'"
        using submit_accepted_stored [OF assms(1) sh refl refl refl t2] by blast
      have er: "expires_at r = expires_at sd" using rr by auto
      have g: "fst (get_session sid t2 (update_session sid ?upd t2 ?st2)) = Some (r\<lparr>data := dict_update (data r) ?upd\<rparr>)"
        using update_session_then_get [OF r] t2 er by simp
      have shape: "poll_shape (r\<lparr>data := dict_update (data r) ?upd\<rparr>) qs m (rs @ [?entry]) ?b"
        using rr sh by (auto simp: poll_shape_def update_conv')
      show ?thesis
        unfolding sub snd_conv g using shape er rr by auto
    qed
    show ?thesis using sub fin by simp
  qed
  have d: "fst (get_poll_results sid t1 st) = Inl (HTTPException 400 ''Results not yet available'')"
    if "\<not> shown"
    using that assms(2)
    by (simp add: get_poll_results_def get_session_present [OF assms(1)] poll_shape_def getitem_def)
  have e: "fst (get_poll_results sid t1 st) = Inr (JList qs, JList rs)" if shown
    using that assms(2)
    by (simp add: get_poll_results_def get_session_present [OF assms(1)] poll_shape_def getitem_def)
  from a b c d e show ?thesis by blast
qed

lemmas poll_defs =
  submit_poll_response_def get_poll_results_def poll_checks_def getitem_def create_quick_poll_def
  poll_shape_def

theorem poll_submit_and_results_witness:
  "fst (get_session ''p'' 1 (snd (create_quick_poll [''Q1''] 2 ''p'' 0 0 empty_server))) =
       Some \<lparr>stype = QUICK_POLL, created_at = 0, expires_at = SESSION_TTL, data =
       [(''questions'', JList [JStr ''Q1'']), (''min_responses'', JInt 2), (''responses'', JList
       []), (''results_shown'', JBool False)]\<rparr>
   \<and> poll_shape \<lparr>stype = QUICK_POLL, created_at = 0, expires_at = SESSION_TTL, data =
       [(''questions'', JList [JStr ''Q1'']), (''min_responses'', JInt 2), (''responses'', JList
       []), (''results_shown'', JBool False)]\<rparr> [JStr ''Q1''] 2 [] False
   \<and> fst (submit_poll_response ''p'' [''a'', ''b''] ''r1'' ''2026-01-01T00:00:00+00:00'' 1 1
       (snd (create_quick_poll [''Q1''] 2 ''p'' 0 0 empty_server))) = Inl (HTTPException 400
       ''Number of responses must match number of questions'')
   \<and> fst (get_poll_results ''p'' 1 (snd (create_quick_poll [''Q1''] 2 ''p'' 0 0 empty_server)))
       = Inl (HTTPException 400 ''Results not yet available'')
   \<and> fst (submit_poll_response ''p'' [''yes''] ''r1'' ''2026-01-01T00:00:00+00:00'' 1 1 (snd
       (create_quick_poll [''Q1''] 2 ''p'' 0 0 empty_server))) = Inr \<lparr>response_count = 1,
       results_shown = False, min_responses = JInt 2\<rparr>
   \<and> fst (submit_poll_response ''p'' [''no''] ''r2'' ''2026-01-01T00:00:00+00:00'' 2 2 (snd
       (submit_poll_response ''p'' [''yes''] ''r1'' ''2026-01-01T00:00:00+00:00'' 1 1 (snd
       (create_quick_poll [''Q1''] 2 ''p'' 0 0 empty_server))))) = Inr \<lparr>response_count =
       2, results_shown = True, min_responses = JInt 2\<rparr>
   \<and> fst (get_session ''p'' 3 (snd (submit_poll_response ''p'' [''no''] ''r2''
       ''2026-01-01T00:00:00+00:00'' 2 2 (snd (submit_poll_response ''p'' [''yes''] ''r1''
       ''2026-01-01T00:00:00+00:00'' 1 1 (snd (create_quick_poll [''Q1''] 2 ''p'' 0 0
       empty_server))))))) = Some \<lparr>stype = QUICK_POLL, created_at = 0, expires_at =
       SESSION_TTL, data = [(''questions'', JList [JStr ''Q1'']), (''min_responses'', JInt 2),
       (''responses'', JList [JObj [(''id'', JStr ''r1''), (''responses'', JList [JStr ''yes'']),
       (''timestamp'', JStr ''2026-01-01T00:00:00+00:00'')], JObj [(''id'', JStr ''r2''),
       (''responses'', JList [JStr ''no'']), (''timestamp'', JStr
       ''2026-01-01T00:00:00+00:00'')]]), (''results_shown'', JBool True)]\<rparr>
   \<and> poll_shape \<lparr>stype = QUICK_POLL, created_at = 0, expires_at = SESSION_TTL, data =
       [(''questions'', JList [JStr ''Q1'']), (''min_responses'', JInt 2), (''responses'', JList
       [JObj [(''id'', JStr ''r1''), (''responses'', JList [JStr ''yes'']), (''timestamp'', JStr
       ''2026-01-01T00:00:00+00:00'')], JObj [(''id'', JStr ''r2''), (''responses'', JList [JStr
       ''no'']), (''timestamp'', JStr ''2026-01-01T00:00:00+00:00'')]]), (''results_shown'',
       JBool True)]\<rparr> [JStr ''Q1''] 2 [JObj [(''id'', JStr ''r1''), (''responses'', JList
       [JStr ''yes'']), (''timestamp'', JStr ''2026-01-01T00:00:00+00:00'')], JObj [(''id'', JStr
       ''r2''), (''responses'', JList [JStr ''no'']), (''timestamp'', JStr
       ''2026-01-01T00:00:00+00:00'')]] True
   \<and> fst (submit_poll_response ''p'' [''late''] ''r3'' ''2026-01-01T00:00:00+00:00'' 3 3 (snd
       (submit_poll_response ''p'' [''no''] ''r2'' ''2026-01-01T00:00:00+00:00'' 2 2 (snd
       (submit_poll_response ''p'' [''yes''] ''r1'' ''2026-01-01T00:00:00+00:00'' 1 1 (snd
       (create_quick_poll [''Q1''] 2 ''p'' 0 0 empty_server))))))) = Inl (HTTPException 400
       ''Poll results have already been shown'')
   \<and> fst (get_poll_results ''p'' 3 (snd (submit_poll_response ''p'' [''no''] ''r2''
       ''2026-01-01T00:00:00+00:00'' 2 2 (snd (submit_poll_response ''p'' [''yes''] ''r1''
       ''2026-01-01T00:00:00+00:00'' 1 1 (snd (create_quick_poll [''Q1''] 2 ''p'' 0 0
       empty_server))))))) = Inr (JList [JStr ''Q1''], JList [JObj [(''id'', JStr ''r1''),
       (''responses'', JList [JStr ''yes'']), (''timestamp'', JStr
       ''2026-01-01T00:00:00+00:00'')], JObj [(''id'', JStr ''r2''), (''responses'', JList [JStr
       ''no'']), (''timestamp'', JStr ''2026-01-01T00:00:00+00:00'')]])"
proof -
  have h1:
    "fst (get_session ''p'' 1 (snd (create_quick_poll [''Q1''] 2 ''p'' 0 0 empty_server))) =
     Some \<lparr>stype = QUICK_POLL, created_at = 0, expires_at = SESSION_TTL, data =
     [(''questions'', JList [JStr ''Q1'']), (''min_responses'', JInt 2), (''responses'', JList
     []), (''results_shown'', JBool False)]\<rparr>"
    by (simp add: poll_defs store_defs)
  have h2:
    "poll_shape \<lparr>stype = QUICK_POLL, created_at = 0, expires_at = SESSION_TTL, data =
     [(''questions'', JList [JStr ''Q1'']), (''min_responses'', JInt 2), (''responses'', JList
     []), (''results_shown'', JBool False)]\<rparr> [JStr ''Q1''] 2 [] False"
    by (simp add: poll_defs store_defs)
  note first = poll_submit_and_results [OF h1 h2]
  have c1:
    "fst (submit_poll_response ''p'' [''a'', ''b''] ''r1'' ''2026-01-01T00:00:00+00:00'' 1 1
     (snd (create_quick_poll [''Q1''] 2 ''p'' 0 0 empty_server))) = Inl (HTTPException 400
     ''Number of responses must match number of questions'')"
    using first [where responses = "[''a'', ''b'']" and rid = "''r1''" and ts = "''2026-01-01T00:00:00+00:00''" and ?t2.0 = 1]
    by simp
  have c2:
    "fst (get_poll_results ''p'' 1 (snd (create_quick_poll [''Q1''] 2 ''p'' 0 0 empty_server)))
     = Inl (HTTPException 400 ''Results not yet available'')"
    using first [where responses = "[]"] by simp
  have c3:
    "fst (submit_poll_response ''p'' [''yes''] ''r1'' ''2026-01-01T00:00:00+00:00'' 1 1 (snd
     (create_quick_poll [''Q1''] 2 ''p'' 0 0 empty_server))) = Inr \<lparr>response_count = 1,
     results_shown = False, min_responses = JInt 2\<rparr>"
    using first [where responses = "[''yes'']" and rid = "''r1''" and ts = "''2026-01-01T00:00:00+00:00''" and ?t2.0 = 1]
    by simp
  have c4:
    "fst (submit_poll_response ''p'' [''no''] ''r2'' ''2026-01-01T00:00:00+00:00'' 2 2 (snd
     (submit_poll_response ''p'' [''yes''] ''r1'' ''2026-01-01T00:00:00+00:00'' 1 1 (snd
     (create_quick_poll [''Q1''] 2 ''p'' 0 0 empty_server))))) = Inr \<lparr>response_count =
     2, results_shown = True, min_responses = JInt 2\<rparr>"
    by (simp add: poll_defs store_defs)
  have h3:
    "fst (get_session ''p'' 3 (snd (submit_poll_response ''p'' [''no''] ''r2''
     ''2026-01-01T00:00:00+00:00'' 2 2 (snd (submit_poll_response ''p'' [''yes''] ''r1''
     ''2026-01-01T00:00:00+00:00'' 1 1 (snd (create_quick_poll [''Q1''] 2 ''p'' 0 0
     empty_server))))))) = Some \<lparr>stype = QUICK_POLL, created_at = 0, expires_at =
     SESSION_TTL, data = [(''questions'', JList [JStr ''Q1'']), (''min_responses'', JInt 2),
     (''responses'', JList [JObj [(''id'', JStr ''r1''), (''responses'', JList [JStr ''yes'']),
     (''timestamp'', JStr ''2026-01-01T00:00:00+00:00'')], JObj [(''id'', JStr ''r2''),
     (''responses'', JList [JStr ''no'']), (''timestamp'', JStr
     ''2026-01-01T00:00:00+00:00'')]]), (''results_shown'', JBool True)]\<rparr>"
    by (simp add: poll_defs store_defs)
  have h4:
    "poll_shape \<lparr>stype = QUICK_POLL, created_at = 0, expires_at = SESSION_TTL, data =
     [(''questions'', JList [JStr ''Q1'']), (''min_responses'', JInt 2), (''responses'', JList
     [JObj [(''id'', JStr ''r1''), (''responses'', JList [JStr ''yes'']), (''timestamp'', JStr
     ''2026-01-01T00:00:00+00:00'')], JObj [(''id'', JStr ''r2''), (''responses'', JList [JStr
     ''no'']), (''timestamp'', JStr ''2026-01-01T00:00:00+00:00'')]]), (''results_shown'',
     JBool True)]\<rparr> [JStr ''Q1''] 2 [JObj [(''id'', JStr ''r1''), (''responses'', JList
     [JStr ''yes'']), (''timestamp'', JStr ''2026-01-01T00:00:00+00:00'')], JObj [(''id'', JStr
     ''r2''), (''responses'', JList [JStr ''no'']), (''timestamp'', JStr
     ''2026-01-01T00:00:00+00:00'')]] True"
    by (simp add: poll_defs store_defs)
  note last = poll_submit_and_results [OF h3 h4]
  have c5:
    "fst (submit_poll_response ''p'' [''late''] ''r3'' ''2026-01-01T00:00:00+00:00'' 3 3 (snd
     (submit_poll_response ''p'' [''no''] ''r2'' ''2026-01-01T00:00:00+00:00'' 2 2 (snd
     (submit_poll_response ''p'' [''yes''] ''r1'' ''2026-01-01T00:00:00+00:00'' 1 1 (snd
     (create_quick_poll [''Q1''] 2 ''p'' 0 0 empty_server))))))) = Inl (HTTPException 400
     ''Poll results have already been shown'')"
    using last [where responses = "[''late'']" and rid = "''r3''" and ts = "''2026-01-01T00:00:00+00:00''" and ?t2.0 = 3]
    by simp
  have c6:
    "fst (get_poll_results ''p'' 3 (snd (submit_poll_response ''p'' [''no''] ''r2''
     ''2026-01-01T00:00:00+00:00'' 2 2 (snd (submit_poll_response ''p'' [''yes''] ''r1''
     ''2026-01-01T00:00:00+00:00'' 1 1 (snd (create_quick_poll [''Q1''] 2 ''p'' 0 0
     empty_server))))))) = Inr (JList [JStr ''Q1''], JList [JObj [(''id'', JStr ''r1''),
     (''responses'', JList [JStr ''yes'']), (''timestamp'', JStr
     ''2026-01-01T00:00:00+00:00'')], JObj [(''id'', JStr ''r2''), (''responses'', JList [JStr
     ''no'']), (''timestamp'', JStr ''2026-01-01T00:00:00+00:00'')]])"
    using last [where responses = "[]"] by simp
  from h1 h2 c1 c2 c3 c4 h3 h4 c5 c6 show ?thesis by blast
qed

end
